theory Spec2Isabelle
  imports Complex_Main
begin

section \<open>Errors raised by the notebook's code\<close>

text \<open>
  The notebook \<^verbatim>\<open>torchie.ipynb\<close> is a sequence of cells. Every exception a code
  cell can end with is a value of \<open>py_error\<close>; a computation that may raise returns
  \<open>py_error + 'a\<close>, with \<open>Inl\<close> for the exception.
\<close>

datatype py_error =
    NameError string
  | IndexError
  | AttributeError string
  | ZeroDivisionError
  | FileNotFoundError string
  | RuntimeError string

section \<open>The dataset cell: \<^verbatim>\<open>CustomDataset\<close>\<close>

text \<open>
  \<^verbatim>\<open>
  class CustomDataset(Dataset):
      def __init__(self, data, labels):
          self.data = data
          self.labels = labels
      def __len__(self):
          return len(self.data)
      def __getitem__(self, idx):
          return self.data[idx], self.labels[idx]
  \<close>
  The two sequences are lists. Indexing is Python's: an index below zero counts from the
  end, and an index outside the sequence raises \<^verbatim>\<open>IndexError\<close>.
\<close>

record ('d, 'l) CustomDataset =
  data :: "'d list"
  labels :: "'l list"

definition py_index :: "'a list \<Rightarrow> int \<Rightarrow> py_error + 'a" where
  "py_index xs idx =
     (if 0 \<le> idx \<and> idx < int (length xs) then Inr (xs ! nat idx)
      else if idx < 0 \<and> - int (length xs) \<le> idx then Inr (xs ! nat (int (length xs) + idx))
      else Inl IndexError)"

text \<open>The constructor stores its two arguments and does nothing else; it cannot raise.\<close>

definition CustomDataset_init :: "'d list \<Rightarrow> 'l list \<Rightarrow> py_error + ('d, 'l) CustomDataset" where
  "CustomDataset_init d l = Inr \<lparr>data = d, labels = l\<rparr>"

definition CustomDataset_len :: "('d, 'l) CustomDataset \<Rightarrow> int" where
  "CustomDataset_len self = int (length (data self))"

text \<open>The tuple is built left to right: \<^verbatim>\<open>self.data[idx]\<close> is read first.\<close>

definition CustomDataset_getitem :: "('d, 'l) CustomDataset \<Rightarrow> int \<Rightarrow> py_error + ('d \<times> 'l)" where
  "CustomDataset_getitem self idx =
     (case py_index (data self) idx of
        Inl e \<Rightarrow> Inl e
      | Inr d \<Rightarrow> (case py_index (labels self) idx of
                    Inl e \<Rightarrow> Inl e
                  | Inr l \<Rightarrow> Inr (d, l)))"

section \<open>The notebook as a sequence of cells\<close>

text \<open>
  A cell is markdown or code; Jupyter runs code cells only. What matters for whether a
  cell can run is which global names each statement reads and which it binds, so a
  statement is kept as exactly that: the names it reads, in the order Python evaluates
  them, and the names it binds. The bodies of methods are not run by a \<^verbatim>\<open>class\<close>
  statement, so a class definition reads only the names of its base classes.
\<close>

datatype cell_kind = Markdown | Code

datatype cond = CudaIsAvailable | DeviceCountAbove1

datatype stmt =
    Import string
  | FromImport "string list"
  | Assign "string list" "string list"
  | AugAssign string "string list"
  | Expr "string list"
  | ClassDef string "string list"
  | If cond "string list" "stmt list" "stmt list"
  | For "string list" "string list" "stmt list"
  | With "string list" "stmt list"

record cell =
  cell_type :: cell_kind
  source :: "stmt list"

text \<open>
  The cells of \<^verbatim>\<open>torchie.ipynb\<close>, in order. In \<open>Assign targets reads\<close> the targets
  are the plain names bound (an attribute assignment such as \<^verbatim>\<open>model.fc = ...\<close> binds
  none and reads \<^verbatim>\<open>model\<close> last). A prose cell has no statements. The cell holding
  \<^verbatim>\<open>class Net\<close> is stored in the notebook with \<^verbatim>\<open>"cell_type": "markdown"\<close>; its text is
  recorded here as the statements it would be.
\<close>

definition prose :: cell where
  "prose = \<lparr>cell_type = Markdown, source = []\<rparr>"

definition tensor_basics_cell :: cell where
  "tensor_basics_cell = \<lparr>cell_type = Code, source =
     [Import ''torch'',
      Assign [''tensor''] [''torch'', ''torch''],
      Expr [''print'', ''tensor''],
      Expr [''print'', ''tensor''],
      Expr [''print'', ''tensor''],
      Expr [''print'', ''tensor'']]\<rparr>"

definition tensor_ops_cell :: cell where
  "tensor_ops_cell = \<lparr>cell_type = Code, source =
     [Assign [''tensor''] [''torch''],
      Expr [''print'', ''tensor''],
      Expr [''print'', ''tensor''],
      Expr [''print'', ''torch'', ''tensor'', ''tensor'']]\<rparr>"

definition cuda_source_cell :: cell where
  "cuda_source_cell = \<lparr>cell_type = Code, source =
     [If CudaIsAvailable [''torch'']
        [Assign [''device''] [''torch''],
         Assign [''tensor''] [''tensor'', ''device''],
         Expr [''print'', ''tensor'']]
        [Expr [''print'']]]\<rparr>"

definition autograd_cell :: cell where
  "autograd_cell = \<lparr>cell_type = Code, source =
     [Assign [''x''] [''torch''],
      Assign [''y''] [''x''],
      Assign [''z''] [''y''],
      Expr [''z''],
      Expr [''print'', ''x'']]\<rparr>"

definition dataset_source_cell :: cell where
  "dataset_source_cell = \<lparr>cell_type = Code, source =
     [FromImport [''DataLoader'', ''Dataset''],
      ClassDef ''CustomDataset'' [''Dataset''],
      Assign [''data''] [''torch''],
      Assign [''labels''] [''torch''],
      Assign [''dataset''] [''CustomDataset'', ''data'', ''labels''],
      Assign [''dataloader''] [''DataLoader'', ''dataset'']]\<rparr>"

definition net_source_cell :: cell where
  "net_source_cell = \<lparr>cell_type = Markdown, source =
     [ClassDef ''Net'' [''nn''],
      Assign [''net''] [''Net''],
      Expr [''print'', ''net'']]\<rparr>"

definition criterion_source_cell :: cell where
  "criterion_source_cell = \<lparr>cell_type = Code, source =
     [Assign [''criterion''] [''nn''],
      Assign [''optimizer''] [''optim'', ''net'']]\<rparr>"

definition training_source_cell :: cell where
  "training_source_cell = \<lparr>cell_type = Code, source =
     [For [''epoch''] [''range'']
        [Assign [''running_loss''] [],
         For [''inputs'', ''labels''] [''dataloader'']
           [Expr [''optimizer''],
            Assign [''outputs''] [''net'', ''inputs''],
            Assign [''loss''] [''criterion'', ''outputs'', ''labels''],
            Expr [''loss''],
            Expr [''optimizer''],
            AugAssign ''running_loss'' [''loss'']],
         Expr [''print'', ''epoch'', ''running_loss'', ''len'', ''dataloader'']]]\<rparr>"

definition evaluation_source_cell :: cell where
  "evaluation_source_cell = \<lparr>cell_type = Code, source =
     [Assign [''correct''] [],
      Assign [''total''] [],
      With [''torch'']
        [For [''inputs'', ''labels''] [''dataloader'']
           [Assign [''outputs''] [''net'', ''inputs''],
            Assign [''_'', ''predicted''] [''torch'', ''outputs''],
            AugAssign ''total'' [''labels''],
            AugAssign ''correct'' [''predicted'', ''labels'']]],
      Expr [''print'', ''correct'', ''total'']]\<rparr>"

definition save_load_source_cell :: cell where
  "save_load_source_cell = \<lparr>cell_type = Code, source =
     [Expr [''torch'', ''net''],
      Assign [''loaded_net''] [''Net''],
      Expr [''loaded_net'', ''torch'']]\<rparr>"

definition transfer_source_cell :: cell where
  "transfer_source_cell = \<lparr>cell_type = Code, source =
     [Import ''torchvision'',
      Assign [''model''] [''torchvision''],
      Assign [''num_ftrs''] [''model''],
      Assign [] [''nn'', ''num_ftrs'', ''model''],
      Expr [''print'', ''model'']]\<rparr>"

definition augmentation_source_cell :: cell where
  "augmentation_source_cell = \<lparr>cell_type = Code, source =
     [Import ''transforms'',
      Assign [''transform'']
        [''transforms'', ''transforms'', ''transforms'', ''transforms'', ''transforms''],
      Assign [''dataset''] [''torchvision'', ''transform'']]\<rparr>"

definition data_parallel_source_cell :: cell where
  "data_parallel_source_cell = \<lparr>cell_type = Code, source =
     [If DeviceCountAbove1 [''torch'']
        [Expr [''print'', ''torch''],
         Assign [''net''] [''nn'', ''net'']]
        []]\<rparr>"

definition notebook :: "cell list" where
  "notebook =
     [prose, tensor_basics_cell,
      prose, tensor_ops_cell,
      prose, cuda_source_cell,
      prose, autograd_cell,
      prose, dataset_source_cell,
      prose, net_source_cell,
      prose, criterion_source_cell,
      prose, training_source_cell,
      prose, evaluation_source_cell,
      prose, save_load_source_cell,
      prose, transfer_source_cell,
      prose, augmentation_source_cell,
      prose, data_parallel_source_cell,
      prose]"

subsection \<open>Running the cells: name lookup\<close>

text \<open>
  The interpreter's global namespace is the list of names bound so far. Reading a name
  that is not bound raises \<^verbatim>\<open>NameError\<close>. Calls into the framework are taken to
  succeed, and a loop body is entered once (both loops of the notebook have something to
  iterate over, and names only accumulate), so the lookup can only fail where Python's
  would. Which branch an \<^verbatim>\<open>if\<close> takes is given by \<open>holds\<close>.
\<close>

definition lookup_all :: "string list \<Rightarrow> string list \<Rightarrow> py_error + unit" where
  "lookup_all env names =
     (case find (\<lambda>n. n \<notin> set env) names of
        Some n \<Rightarrow> Inl (NameError n)
      | None \<Rightarrow> Inr ())"

fun exec_stmt :: "(cond \<Rightarrow> bool) \<Rightarrow> string list \<Rightarrow> stmt \<Rightarrow> py_error + string list"
  and exec_block :: "(cond \<Rightarrow> bool) \<Rightarrow> string list \<Rightarrow> stmt list \<Rightarrow> py_error + string list" where
  "exec_stmt holds env (Import n) = Inr (n # env)"
| "exec_stmt holds env (FromImport ns) = Inr (ns @ env)"
| "exec_stmt holds env (Assign targets reads) =
     (case lookup_all env reads of Inl e \<Rightarrow> Inl e | Inr _ \<Rightarrow> Inr (targets @ env))"
| "exec_stmt holds env (AugAssign target reads) =
     (case lookup_all env (target # reads) of Inl e \<Rightarrow> Inl e | Inr _ \<Rightarrow> Inr env)"
| "exec_stmt holds env (Expr reads) =
     (case lookup_all env reads of Inl e \<Rightarrow> Inl e | Inr _ \<Rightarrow> Inr env)"
| "exec_stmt holds env (ClassDef n bases) =
     (case lookup_all env bases of Inl e \<Rightarrow> Inl e | Inr _ \<Rightarrow> Inr (n # env))"
| "exec_stmt holds env (If c reads thn els) =
     (case lookup_all env reads of
        Inl e \<Rightarrow> Inl e
      | Inr _ \<Rightarrow> if holds c then exec_block holds env thn else exec_block holds env els)"
| "exec_stmt holds env (For targets reads body) =
     (case lookup_all env reads of
        Inl e \<Rightarrow> Inl e
      | Inr _ \<Rightarrow> exec_block holds (targets @ env) body)"
| "exec_stmt holds env (With reads body) =
     (case lookup_all env reads of Inl e \<Rightarrow> Inl e | Inr _ \<Rightarrow> exec_block holds env body)"
| "exec_block holds env [] = Inr env"
| "exec_block holds env (s # ss) =
     (case exec_stmt holds env s of Inl e \<Rightarrow> Inl e | Inr env' \<Rightarrow> exec_block holds env' ss)"

text \<open>
  Cells run in order from the first; a markdown cell is skipped; the first exception
  stops the run. The result names the cell (counted from 0) that raised.
\<close>

fun run_cells :: "(cond \<Rightarrow> bool) \<Rightarrow> nat \<Rightarrow> string list \<Rightarrow> cell list \<Rightarrow> (nat \<times> py_error) + string list" where
  "run_cells holds k env [] = Inr env"
| "run_cells holds k env (c # cs) =
     (case cell_type c of
        Markdown \<Rightarrow> run_cells holds (Suc k) env cs
      | Code \<Rightarrow> (case exec_block holds env (source c) of
                   Inl e \<Rightarrow> Inl (k, e)
                 | Inr env' \<Rightarrow> run_cells holds (Suc k) env' cs))"

definition builtins :: "string list" where
  "builtins = [''print'', ''len'', ''range'', ''super'']"

definition run_notebook :: "(cond \<Rightarrow> bool) \<Rightarrow> cell list \<Rightarrow> (nat \<times> py_error) + string list" where
  "run_notebook holds cells = run_cells holds 0 builtins cells"

section \<open>Running the cells one by one\<close>

text \<open>
  The run above stops at the first cell that raises and takes the framework to succeed.
  Run one at a time, a cell that raises does not keep the later cells from being run:
  the names bound before the exception stay bound, and the next cell starts in that
  namespace. A run is described by the exception pending (if any), the names bound
  and the number of steps taken so far. A step is the work of one simple statement, of
  the header of an \<^verbatim>\<open>if\<close>, \<^verbatim>\<open>for\<close> or \<^verbatim>\<open>with\<close>, or of fetching the next
  item of a loop: first the names it reads are looked up (\<^verbatim>\<open>NameError\<close> for the
  first one not bound), then the framework does its work, which may raise, and then
  the names it binds are bound.

  What the cells cannot decide themselves is given by a \<open>world\<close>: which way each
  \<^verbatim>\<open>if\<close> goes, how many items an iterable yields (the iterable is named by what its
  expression reads), and for every step, counted from the start of the run, whether
  the framework raises in it and what.
\<close>

record world =
  holds_in :: "cond \<Rightarrow> bool"
  items :: "string list \<Rightarrow> nat"
  fails :: "nat \<Rightarrow> py_error option"

record run =
  raised :: "py_error option"
  names :: "string list"
  clock :: nat

definition step :: "world \<Rightarrow> string list \<Rightarrow> string list \<Rightarrow> run \<Rightarrow> run" where
  "step w reads binds r =
     (case lookup_all (names r) reads of
        Inl e \<Rightarrow> r\<lparr>raised := Some e\<rparr>
      | Inr _ \<Rightarrow>
          (case fails w (clock r) of
             Some e \<Rightarrow> r\<lparr>raised := Some e, clock := Suc (clock r)\<rparr>
           | None \<Rightarrow> r\<lparr>names := binds @ names r, clock := Suc (clock r)\<rparr>))"

text \<open>
  A statement is run in a state with no exception pending. After every step the
  exception is looked at: once one is pending, nothing further of the block, the loop
  or the cell is run. The notebook has no \<^verbatim>\<open>try\<close> statement, and its only
  \<^verbatim>\<open>with\<close> statement enters \<^verbatim>\<open>torch.no_grad()\<close>, which lets exceptions pass.
\<close>

fun run_stmt :: "world \<Rightarrow> run \<Rightarrow> stmt \<Rightarrow> run"
  and run_block :: "world \<Rightarrow> run \<Rightarrow> stmt list \<Rightarrow> run"
  and run_loop :: "world \<Rightarrow> run \<Rightarrow> string list \<Rightarrow> stmt list \<Rightarrow> nat \<Rightarrow> run" where
  "run_stmt w r (Import n) = step w [] [n] r"
| "run_stmt w r (FromImport ns) = step w [] ns r"
| "run_stmt w r (Assign targets reads) = step w reads targets r"
| "run_stmt w r (AugAssign target reads) = step w (target # reads) [] r"
| "run_stmt w r (Expr reads) = step w reads [] r"
| "run_stmt w r (ClassDef n bases) = step w bases [n] r"
| "run_stmt w r (If c reads thn els) =
     (let r1 = step w reads [] r
      in if raised r1 \<noteq> None then r1
         else if holds_in w c then run_block w r1 thn else run_block w r1 els)"
| "run_stmt w r (For targets reads body) =
     (let r1 = step w reads [] r
      in if raised r1 \<noteq> None then r1
         else run_loop w r1 targets body (items w reads))"
| "run_stmt w r (With reads body) =
     (let r1 = step w reads [] r
      in if raised r1 \<noteq> None then r1 else run_block w r1 body)"
| "run_block w r [] = r"
| "run_block w r (s # ss) =
     (let r1 = run_stmt w r s
      in if raised r1 \<noteq> None then r1 else run_block w r1 ss)"
| "run_loop w r targets body 0 = r"
| "run_loop w r targets body (Suc n) =
     (let r1 = step w [] targets r
      in if raised r1 \<noteq> None then r1
         else (let r2 = run_block w r1 body
               in if raised r2 \<noteq> None then r2 else run_loop w r2 targets body n))"

text \<open>
  Running a cell: a markdown cell is not executed; a code cell starts with no exception
  pending, in the namespace and at the step count the cells before it have left.
  \<open>run_before w cells k\<close> is the state in which cell \<open>k\<close> (counted from 0) is run when
  the cells before it have been run in order, and \<open>run_at w cells k\<close> the state it
  leaves.
\<close>

definition run_cell :: "world \<Rightarrow> run \<Rightarrow> cell \<Rightarrow> run" where
  "run_cell w r c =
     (case cell_type c of
        Markdown \<Rightarrow> r\<lparr>raised := None\<rparr>
      | Code \<Rightarrow> run_block w (r\<lparr>raised := None\<rparr>) (source c))"

definition kernel_start :: run where
  "kernel_start = \<lparr>raised = None, names = builtins, clock = 0\<rparr>"

definition run_before :: "world \<Rightarrow> cell list \<Rightarrow> nat \<Rightarrow> run" where
  "run_before w cells k = foldl (run_cell w) kernel_start (take k cells)"

definition run_at :: "world \<Rightarrow> cell list \<Rightarrow> nat \<Rightarrow> run" where
  "run_at w cells k = run_cell w (run_before w cells k) (cells ! k)"

text \<open>
  The notebook as it is written, on a machine where the framework does not fail:
  \<^verbatim>\<open>range(5)\<close> yields five items and the loader over the 100 samples, in batches of
  32, yields four.
\<close>

definition as_written :: "(cond \<Rightarrow> bool) \<Rightarrow> world" where
  "as_written holds =
     \<lparr>holds_in = holds,
      items = (\<lambda>reads. if reads = [''range''] then 5
                       else if reads = [''dataloader''] then 4 else 0),
      fails = (\<lambda>k. None)\<rparr>"

subsection \<open>Notions used to state how exceptions travel\<close>

text \<open>
  The conditions the \<^verbatim>\<open>if\<close> statements of a block test, nested ones included.
\<close>

fun conds_stmt :: "stmt \<Rightarrow> cond list"
  and conds_block :: "stmt list \<Rightarrow> cond list" where
  "conds_stmt (If c reads thn els) = c # conds_block thn @ conds_block els"
| "conds_stmt (For targets reads body) = conds_block body"
| "conds_stmt (With reads body) = conds_block body"
| "conds_stmt (Import n) = []"
| "conds_stmt (FromImport ns) = []"
| "conds_stmt (Assign targets reads) = []"
| "conds_stmt (AugAssign target reads) = []"
| "conds_stmt (Expr reads) = []"
| "conds_stmt (ClassDef n bases) = []"
| "conds_block [] = []"
| "conds_block (s # ss) = conds_stmt s @ conds_block ss"

text \<open>
  The steps a block takes when nothing raises, one after the other: each step is given
  by the names it reads and the names it binds. Running such a sequence stops at the
  first step that leaves an exception pending.
\<close>

fun plan_stmt :: "world \<Rightarrow> stmt \<Rightarrow> (string list \<times> string list) list"
  and plan_block :: "world \<Rightarrow> stmt list \<Rightarrow> (string list \<times> string list) list" where
  "plan_stmt w (Import n) = [([], [n])]"
| "plan_stmt w (FromImport ns) = [([], ns)]"
| "plan_stmt w (Assign targets reads) = [(reads, targets)]"
| "plan_stmt w (AugAssign target reads) = [(target # reads, [])]"
| "plan_stmt w (Expr reads) = [(reads, [])]"
| "plan_stmt w (ClassDef n bases) = [(bases, [n])]"
| "plan_stmt w (If c reads thn els) =
     (reads, []) # (if holds_in w c then plan_block w thn else plan_block w els)"
| "plan_stmt w (For targets reads body) =
     (reads, []) # concat (replicate (items w reads) (([], targets) # plan_block w body))"
| "plan_stmt w (With reads body) = (reads, []) # plan_block w body"
| "plan_block w [] = []"
| "plan_block w (s # ss) = plan_stmt w s @ plan_block w ss"

fun run_plan :: "world \<Rightarrow> run \<Rightarrow> (string list \<times> string list) list \<Rightarrow> run" where
  "run_plan w r [] = r"
| "run_plan w r (p # ps) =
     (let r1 = step w (fst p) (snd p) r
      in if raised r1 \<noteq> None then r1 else run_plan w r1 ps)"

text \<open>
  \<open>reads_bound env ps\<close>: in the sequence of steps \<open>ps\<close>, started with the names \<open>env\<close>
  bound, every name is bound when it is read.
  \<open>all_succeed w a b\<close>: the framework raises in none of the steps \<open>a, \<dots>, b - 1\<close>.
  \<open>first_failure w r r'\<close> relates the state \<open>r\<close> before a piece of code to the state
  \<open>r'\<close> after it: if no exception is pending afterwards, every step taken succeeded;
  if exception \<open>e\<close> is pending, every step before the last succeeded and \<open>e\<close> is what
  went wrong last, the \<^verbatim>\<open>NameError\<close> of a name that is not bound or the exception the
  framework raised in the last step taken.
\<close>

fun reads_bound :: "string list \<Rightarrow> (string list \<times> string list) list \<Rightarrow> bool" where
  "reads_bound env [] = True"
| "reads_bound env (p # ps) = (set (fst p) \<subseteq> set env \<and> reads_bound (snd p @ env) ps)"

definition all_succeed :: "world \<Rightarrow> nat \<Rightarrow> nat \<Rightarrow> bool" where
  "all_succeed w a b \<longleftrightarrow> (\<forall>j. a \<le> j \<and> j < b \<longrightarrow> fails w j = None)"

definition first_failure :: "world \<Rightarrow> run \<Rightarrow> run \<Rightarrow> bool" where
  "first_failure w r r' \<longleftrightarrow>
     clock r \<le> clock r'
     \<and> (case raised r' of
          None \<Rightarrow> all_succeed w (clock r) (clock r')
        | Some e \<Rightarrow>
            (all_succeed w (clock r) (clock r')
               \<and> (\<exists>n. e = NameError n \<and> n \<notin> set (names r')))
            \<or> (clock r < clock r'
                 \<and> all_succeed w (clock r) (clock r' - 1)
                 \<and> fails w (clock r' - 1) = Some e))"

section \<open>What the CUDA cell computes\<close>

text \<open>
  \<^verbatim>\<open>
  if torch.cuda.is_available():
      device = torch.device("cuda")
      tensor = tensor.to(device)
      print(tensor)
  else:
      print("CUDA not available")
  \<close>
  The cell returns the value of \<^verbatim>\<open>tensor\<close> and what it printed. \<open>to_cuda\<close> is the
  framework's move of a tensor to the CUDA device.
\<close>

datatype 't shown = ShowTensor 't | ShowText string

definition cuda_cell ::
  "bool \<Rightarrow> ('t \<Rightarrow> py_error + 't) \<Rightarrow> 't \<Rightarrow> py_error + ('t \<times> 't shown list)" where
  "cuda_cell is_available to_cuda tensor =
     (if is_available
      then (case to_cuda tensor of
              Inl e \<Rightarrow> Inl e
            | Inr tensor' \<Rightarrow> Inr (tensor', [ShowTensor tensor']))
      else Inr (tensor, [ShowText ''CUDA not available'']))"

text \<open>On a machine without a CUDA device the move itself raises.\<close>

definition no_cuda_device :: "'t \<Rightarrow> py_error + 't" where
  "no_cuda_device tensor = Inl (RuntimeError ''No CUDA GPUs are available'')"

section \<open>Auxiliary notions for evaluating runs\<close>

text \<open>
  \<open>unless_raised r k\<close> continues with \<open>k\<close> unless an exception is pending in \<open>r\<close>.
  The names bound when the criterion cell (cell 13) is reached depend on the CUDA cell
  alone: with CUDA it has bound \<^verbatim>\<open>device\<close> and rebound \<^verbatim>\<open>tensor\<close>, in two steps more
  than without.
\<close>

definition unless_raised :: "run \<Rightarrow> (run \<Rightarrow> run) \<Rightarrow> run" where
  "unless_raised r k = (if raised r \<noteq> None then r else k r)"

definition cuda_names :: "(cond \<Rightarrow> bool) \<Rightarrow> string list" where
  "cuda_names holds = (if holds CudaIsAvailable then [''tensor'', ''device''] else [])"

definition cuda_steps :: "(cond \<Rightarrow> bool) \<Rightarrow> nat" where
  "cuda_steps holds = (if holds CudaIsAvailable then 2 else 0)"

definition names_13 :: "(cond \<Rightarrow> bool) \<Rightarrow> string list" where
  "names_13 holds =
     [''dataloader'', ''dataset'', ''labels'', ''data'', ''CustomDataset'', ''DataLoader'',
      ''Dataset'', ''z'', ''y'', ''x'']
     @ cuda_names holds
     @ [''tensor'', ''tensor'', ''torch'', ''print'', ''len'', ''range'', ''super'']"

text \<open>
  Two worlds in which the framework does raise, and a namespace in which the names the
  notebook leaves unbound are bound, so that the calls are reached. In the first the
  forward pass on the third batch of the second epoch meets a shape mismatch (step 52
  of the training cell: one step for the outer header, 32 for the first epoch, three
  to enter the second, seven for each of two batches, and the fetch and the zero-grad
  of the third). In the second \<^verbatim>\<open>torch.load\<close> finds no file (step 2 of the save
  and load cell).
\<close>

definition shape_mismatch_later :: world where
  "shape_mismatch_later =
     (as_written (\<lambda>c. False))
       \<lparr>fails := (\<lambda>k. if k = 52
                       then Some (RuntimeError ''mat1 and mat2 shapes cannot be multiplied'')
                       else None)\<rparr>"

definition checkpoint_missing :: world where
  "checkpoint_missing =
     (as_written (\<lambda>c. False))
       \<lparr>fails := (\<lambda>k. if k = 2 then Some (FileNotFoundError ''model.pth'') else None)\<rparr>"

definition names_repaired :: run where
  "names_repaired =
     \<lparr>raised = None,
      names = [''optimizer'', ''criterion'', ''net'', ''Net'', ''dataloader'', ''torch'',
               ''print'', ''len'', ''range'', ''super''],
      clock = 0\<rparr>"

section \<open>Properties of \<^verbatim>\<open>CustomDataset\<close>\<close>

lemma py_index_in_range:
  "0 \<le> idx \<Longrightarrow> idx < int (length xs) \<Longrightarrow> py_index xs idx = Inr (xs ! nat idx)"
  by (simp add: py_index_def)

lemma py_index_at_length: "py_index xs (int (length xs)) = Inl IndexError"
  by (simp add: py_index_def)

text \<open>
  Claim C6. For every dataset built from a data sequence and a labels sequence,
  \<^verbatim>\<open>__len__\<close> is the length of the data sequence, and at every index \<open>i\<close> with
  \<open>0 \<le> i\<close>, \<open>i\<close> below the length of the data and below the length of the labels,
  \<^verbatim>\<open>__getitem__\<close> returns exactly the pair of the two elements at \<open>i\<close>.
\<close>

theorem CustomDataset_len_getitem:
  assumes "CustomDataset_init d l = Inr ds"
  shows "CustomDataset_len ds = int (length d)
         \<and> (\<forall>i. 0 \<le> i \<and> i < int (length d) \<and> i < int (length l) \<longrightarrow>
                CustomDataset_getitem ds i = Inr (d ! nat i, l ! nat i))"
  using assms
  by (auto simp: CustomDataset_init_def CustomDataset_len_def CustomDataset_getitem_def
      py_index_in_range)

theorem CustomDataset_len_getitem_witness:
  "CustomDataset_init [10, 20, 30 :: int] [''a'', ''b'', ''c''] =
     Inr \<lparr>data = [10, 20, 30], labels = [''a'', ''b'', ''c'']\<rparr>
   \<and> CustomDataset_len \<lparr>data = [10, 20, 30 :: int], labels = [''a'', ''b'', ''c'']\<rparr> = 3
   \<and> CustomDataset_getitem \<lparr>data = [10, 20, 30 :: int], labels = [''a'', ''b'', ''c'']\<rparr> 1
       = Inr (20, ''b'')"
proof -
  have h: "CustomDataset_init [10, 20, 30 :: int] [''a'', ''b'', ''c''] =
     Inr \<lparr>data = [10, 20, 30], labels = [''a'', ''b'', ''c'']\<rparr>"
    by (simp add: CustomDataset_init_def)
  have "(0::int) \<le> 1 \<and> (1::int) < int (length [10, 20, 30 :: int])
        \<and> (1::int) < int (length [''a'', ''b'', ''c''])"
    by simp
  then show ?thesis
    using h CustomDataset_len_getitem [OF h] by simp
qed

text \<open>
  Claim C7. The constructor validates nothing: it succeeds on every pair of sequences, and
  the reported length is that of the data alone. So whenever the labels are strictly
  shorter than the data, some index \<open>i\<close> below \<^verbatim>\<open>__len__()\<close> makes
  \<^verbatim>\<open>__getitem__(i)\<close> fail with the container's \<^verbatim>\<open>IndexError\<close>.
\<close>

theorem CustomDataset_no_validation:
  assumes "length l < length d"
  shows "\<exists>ds. CustomDataset_init d l = Inr ds
           \<and> CustomDataset_len ds = int (length d)
           \<and> (\<exists>i. 0 \<le> i \<and> i < CustomDataset_len ds
                  \<and> CustomDataset_getitem ds i = Inl IndexError)"
proof -
  let ?ds = "\<lparr>data = d, labels = l\<rparr>"
  let ?i = "int (length l)"
  have "py_index d ?i = Inr (d ! length l)"
    using assms by (simp add: py_index_def)
  then have "CustomDataset_getitem ?ds ?i = Inl IndexError"
    by (simp add: CustomDataset_getitem_def py_index_at_length)
  moreover have "0 \<le> ?i" "?i < CustomDataset_len ?ds"
    using assms by (simp_all add: CustomDataset_len_def)
  ultimately have "\<exists>i. 0 \<le> i \<and> i < CustomDataset_len ?ds
      \<and> CustomDataset_getitem ?ds i = Inl IndexError"
    by blast
  then show ?thesis
    by (simp add: CustomDataset_init_def CustomDataset_len_def)
qed

theorem CustomDataset_no_validation_witness:
  "length [0 :: nat] < length [1.5, 2.5 :: real]
   \<and> (\<exists>ds. CustomDataset_init [1.5, 2.5 :: real] [0 :: nat] = Inr ds
           \<and> CustomDataset_len ds = int (length [1.5, 2.5 :: real])
           \<and> (\<exists>i. 0 \<le> i \<and> i < CustomDataset_len ds
                  \<and> CustomDataset_getitem ds i = Inl IndexError))"
proof -
  have h: "length [0 :: nat] < length [1.5, 2.5 :: real]" by simp
  show ?thesis
    using h CustomDataset_no_validation [OF h] by blast
qed

section \<open>The notebook run from the first cell\<close>

lemmas cell_defs = prose_def tensor_basics_cell_def tensor_ops_cell_def cuda_source_cell_def
  autograd_cell_def dataset_source_cell_def net_source_cell_def criterion_source_cell_def
  training_source_cell_def evaluation_source_cell_def save_load_source_cell_def
  transfer_source_cell_def augmentation_source_cell_def data_parallel_source_cell_def

text \<open>
  Claim C3 says that every code cell, run in order from the first, runs without raising,
  every name being bound before it is used. The run stops instead at the cell that
  builds the criterion and the optimizer (cell 13, counted from 0), with
  \<^verbatim>\<open>NameError: name 'nn' is not defined\<close>, whichever way the two \<^verbatim>\<open>if\<close>
  statements go. The cells before it run. \<^verbatim>\<open>nn\<close>, \<^verbatim>\<open>F\<close> and \<^verbatim>\<open>optim\<close> are
  imported nowhere, and the cell that defines \<^verbatim>\<open>Net\<close> and \<^verbatim>\<open>net\<close> (cell 11) is a
  markdown cell; were it a code cell, the run would stop there, on the same name.
\<close>

theorem notebook_run_raises_NameError:
  "run_notebook holds notebook = Inl (13, NameError ''nn'')
   \<and> notebook ! 13 = criterion_source_cell
   \<and> \<not> isl (run_notebook holds (take 13 notebook))
   \<and> notebook ! 11 = net_source_cell
   \<and> cell_type net_source_cell = Markdown
   \<and> run_notebook holds (notebook[11 := net_source_cell\<lparr>cell_type := Code\<rparr>])
       = Inl (11, NameError ''nn'')"
  by (simp add: run_notebook_def notebook_def builtins_def cell_defs lookup_all_def)

section \<open>Evaluating runs\<close>

lemma unless_raised_weak_cong: "r = r' \<Longrightarrow> unless_raised r k = unless_raised r' k"
  by simp

lemma unless_raised_eval:
  "unless_raised \<lparr>raised = None, names = ns, clock = c\<rparr> k
     = k \<lparr>raised = None, names = ns, clock = c\<rparr>"
  "unless_raised \<lparr>raised = Some e, names = ns, clock = c\<rparr> k
     = \<lparr>raised = Some e, names = ns, clock = c\<rparr>"
  by (simp_all add: unless_raised_def)

lemma run_eval:
  "run_stmt w r (If c reads thn els) =
     unless_raised (step w reads [] r)
       (\<lambda>r1. if holds_in w c then run_block w r1 thn else run_block w r1 els)"
  "run_stmt w r (For targets reads body) =
     unless_raised (step w reads [] r) (\<lambda>r1. run_loop w r1 targets body (items w reads))"
  "run_stmt w r (With reads body) =
     unless_raised (step w reads [] r) (\<lambda>r1. run_block w r1 body)"
  "run_block w r (s # ss) = unless_raised (run_stmt w r s) (\<lambda>r1. run_block w r1 ss)"
  "run_loop w r targets body (Suc n) =
     unless_raised (step w [] targets r)
       (\<lambda>r1. unless_raised (run_block w r1 body) (\<lambda>r2. run_loop w r2 targets body n))"
  by (simp_all add: unless_raised_def Let_def)

lemma step_eval:
  "step w reads binds \<lparr>raised = x, names = ns, clock = c\<rparr> =
     (case find (\<lambda>n. n \<notin> set ns) reads of
        Some n \<Rightarrow> \<lparr>raised = Some (NameError n), names = ns, clock = c\<rparr>
      | None \<Rightarrow>
          (case fails w c of
             Some e \<Rightarrow> \<lparr>raised = Some e, names = ns, clock = Suc c\<rparr>
           | None \<Rightarrow> \<lparr>raised = x, names = binds @ ns, clock = Suc c\<rparr>))"
  by (simp add: step_def lookup_all_def split: option.split)

lemmas eval_rules = run_eval step_eval unless_raised_eval run_stmt.simps(1-6) run_block.simps(1)
  run_loop.simps(1) run_cell_def as_written_def eval_nat_numeral

lemmas eval_cell = eval_rules cell_defs names_13_def cuda_names_def cuda_steps_def

lemma run_before_Suc:
  "k < length cells \<Longrightarrow>
   run_before w cells (Suc k) = run_cell w (run_before w cells k) (cells ! k)"
  by (simp add: run_before_def take_Suc_conv_app_nth)

lemma next_code_cell:
  assumes "run_before w notebook k = r" "notebook ! k = c" "notebook ! Suc k = prose"
    "Suc k < length notebook"
  shows "run_before w notebook (Suc (Suc k)) = (run_cell w r c)\<lparr>raised := None\<rparr>"
  using assms by (simp add: run_before_Suc run_cell_def prose_def)

subsection \<open>The state in which each of the later cells is run\<close>

lemma before_11:
  "run_before (as_written holds) notebook 11 =
     \<lparr>raised = None, names = names_13 holds, clock = 23 + cuda_steps holds\<rparr>"
  by (simp del: run_stmt.simps run_block.simps run_loop.simps
      add: run_before_def notebook_def eval_cell kernel_start_def builtins_def
      cong: unless_raised_weak_cong)

lemma before_13:
  "run_before (as_written holds) notebook 13 =
     \<lparr>raised = None, names = names_13 holds, clock = 23 + cuda_steps holds\<rparr>"
proof -
  have "run_before (as_written holds) notebook (Suc (Suc 11))
      = (run_cell (as_written holds)
           \<lparr>raised = None, names = names_13 holds, clock = 23 + cuda_steps holds\<rparr>
           net_source_cell)\<lparr>raised := None\<rparr>"
    by (rule next_code_cell [OF before_11]) (simp_all add: notebook_def)
  then show ?thesis
    by (simp add: run_cell_def net_source_cell_def)
qed

lemma before_15:
  "run_before (as_written holds) notebook 15 =
     \<lparr>raised = None, names = names_13 holds, clock = 23 + cuda_steps holds\<rparr>"
proof -
  have "run_before (as_written holds) notebook (Suc (Suc 13))
      = (run_cell (as_written holds)
           \<lparr>raised = None, names = names_13 holds, clock = 23 + cuda_steps holds\<rparr>
           criterion_source_cell)\<lparr>raised := None\<rparr>"
    by (rule next_code_cell [OF before_13]) (simp_all add: notebook_def)
  then show ?thesis
    by (simp del: run_stmt.simps run_block.simps run_loop.simps add: eval_cell
        cong: unless_raised_weak_cong)
qed

lemma before_17:
  "run_before (as_written holds) notebook 17 =
     \<lparr>raised = None,
      names = [''inputs'', ''labels'', ''running_loss'', ''epoch''] @ names_13 holds,
      clock = 28 + cuda_steps holds\<rparr>"
proof -
  have "run_before (as_written holds) notebook (Suc (Suc 15))
      = (run_cell (as_written holds)
           \<lparr>raised = None, names = names_13 holds, clock = 23 + cuda_steps holds\<rparr>
           training_source_cell)\<lparr>raised := None\<rparr>"
    by (rule next_code_cell [OF before_15]) (simp_all add: notebook_def)
  then show ?thesis
    by (simp del: run_stmt.simps run_block.simps run_loop.simps add: eval_cell
        cong: unless_raised_weak_cong)
qed

lemma before_19:
  "run_before (as_written holds) notebook 19 =
     \<lparr>raised = None,
      names = [''inputs'', ''labels'', ''total'', ''correct'',
               ''inputs'', ''labels'', ''running_loss'', ''epoch''] @ names_13 holds,
      clock = 33 + cuda_steps holds\<rparr>"
proof -
  have "run_before (as_written holds) notebook (Suc (Suc 17))
      = (run_cell (as_written holds)
           \<lparr>raised = None,
            names = [''inputs'', ''labels'', ''running_loss'', ''epoch''] @ names_13 holds,
            clock = 28 + cuda_steps holds\<rparr>
           evaluation_source_cell)\<lparr>raised := None\<rparr>"
    by (rule next_code_cell [OF before_17]) (simp_all add: notebook_def)
  then show ?thesis
    by (simp del: run_stmt.simps run_block.simps run_loop.simps add: eval_cell
        cong: unless_raised_weak_cong)
qed

lemma before_21:
  "run_before (as_written holds) notebook 21 =
     \<lparr>raised = None,
      names = [''inputs'', ''labels'', ''total'', ''correct'',
               ''inputs'', ''labels'', ''running_loss'', ''epoch''] @ names_13 holds,
      clock = 33 + cuda_steps holds\<rparr>"
proof -
  have "run_before (as_written holds) notebook (Suc (Suc 19))
      = (run_cell (as_written holds)
           \<lparr>raised = None,
            names = [''inputs'', ''labels'', ''total'', ''correct'',
                     ''inputs'', ''labels'', ''running_loss'', ''epoch''] @ names_13 holds,
            clock = 33 + cuda_steps holds\<rparr>
           save_load_source_cell)\<lparr>raised := None\<rparr>"
    by (rule next_code_cell [OF before_19]) (simp_all add: notebook_def)
  then show ?thesis
    by (simp del: run_stmt.simps run_block.simps run_loop.simps add: eval_cell
        cong: unless_raised_weak_cong)
qed

lemma before_23:
  "run_before (as_written holds) notebook 23 =
     \<lparr>raised = None,
      names = [''num_ftrs'', ''model'', ''torchvision'',
               ''inputs'', ''labels'', ''total'', ''correct'',
               ''inputs'', ''labels'', ''running_loss'', ''epoch''] @ names_13 holds,
      clock = 36 + cuda_steps holds\<rparr>"
proof -
  have "run_before (as_written holds) notebook (Suc (Suc 21))
      = (run_cell (as_written holds)
           \<lparr>raised = None,
            names = [''inputs'', ''labels'', ''total'', ''correct'',
                     ''inputs'', ''labels'', ''running_loss'', ''epoch''] @ names_13 holds,
            clock = 33 + cuda_steps holds\<rparr>
           transfer_source_cell)\<lparr>raised := None\<rparr>"
    by (rule next_code_cell [OF before_21]) (simp_all add: notebook_def)
  then show ?thesis
    by (simp del: run_stmt.simps run_block.simps run_loop.simps add: eval_cell
        cong: unless_raised_weak_cong)
qed

lemma before_25:
  "run_before (as_written holds) notebook 25 =
     \<lparr>raised = None,
      names = [''dataset'', ''transform'', ''transforms'',
               ''num_ftrs'', ''model'', ''torchvision'',
               ''inputs'', ''labels'', ''total'', ''correct'',
               ''inputs'', ''labels'', ''running_loss'', ''epoch''] @ names_13 holds,
      clock = 39 + cuda_steps holds\<rparr>"
proof -
  have "run_before (as_written holds) notebook (Suc (Suc 23))
      = (run_cell (as_written holds)
           \<lparr>raised = None,
            names = [''num_ftrs'', ''model'', ''torchvision'',
                     ''inputs'', ''labels'', ''total'', ''correct'',
                     ''inputs'', ''labels'', ''running_loss'', ''epoch''] @ names_13 holds,
            clock = 36 + cuda_steps holds\<rparr>
           augmentation_source_cell)\<lparr>raised := None\<rparr>"
    by (rule next_code_cell [OF before_23]) (simp_all add: notebook_def)
  then show ?thesis
    by (simp del: run_stmt.simps run_block.simps run_loop.simps add: eval_cell
        cong: unless_raised_weak_cong)
qed

lemma before_27:
  "run_before (as_written holds) notebook 27 =
     \<lparr>raised = None,
      names = [''dataset'', ''transform'', ''transforms'',
               ''num_ftrs'', ''model'', ''torchvision'',
               ''inputs'', ''labels'', ''total'', ''correct'',
               ''inputs'', ''labels'', ''running_loss'', ''epoch''] @ names_13 holds,
      clock = (if holds DeviceCountAbove1 then 41 else 40) + cuda_steps holds\<rparr>"
proof -
  have "run_before (as_written holds) notebook (Suc (Suc 25))
      = (run_cell (as_written holds)
           \<lparr>raised = None,
            names = [''dataset'', ''transform'', ''transforms'',
                     ''num_ftrs'', ''model'', ''torchvision'',
                     ''inputs'', ''labels'', ''total'', ''correct'',
                     ''inputs'', ''labels'', ''running_loss'', ''epoch''] @ names_13 holds,
            clock = 39 + cuda_steps holds\<rparr>
           data_parallel_source_cell)\<lparr>raised := None\<rparr>"
    by (rule next_code_cell [OF before_25]) (simp_all add: notebook_def)
  then show ?thesis
    by (simp del: run_stmt.simps run_block.simps run_loop.simps add: eval_cell
        cong: unless_raised_weak_cong)
qed

text \<open>
  Run cell by cell, the criterion cell ends as it does when all cells are run in one go.
\<close>

lemma criterion_cell_outcome:
  "raised (run_at (as_written holds) notebook 13) = Some (NameError ''nn'')"
  unfolding run_at_def before_13
  by (simp del: run_stmt.simps run_block.simps run_loop.simps add: eval_cell notebook_def
      cong: unless_raised_weak_cong)

section \<open>The cells after the dataset cell, as the notebook has them\<close>

text \<open>
  Claim C5 says that the repository defines a subclass \<^verbatim>\<open>Net\<close> of \<^verbatim>\<open>nn.Module\<close>
  with two linear layers (10 to 20, 20 to 5) and a forward pass through the first
  layer, ReLU and the second. The text of that class is in the notebook, but in cell
  11, a markdown cell: running it changes nothing, and after all 27 cells have been run
  neither \<^verbatim>\<open>Net\<close> nor \<^verbatim>\<open>net\<close> is bound, nor \<^verbatim>\<open>nn\<close> or \<^verbatim>\<open>F\<close>, which the
  class needs. Run as code in its place, the cell raises
  \<^verbatim>\<open>NameError: name 'nn' is not defined\<close> at the \<^verbatim>\<open>class\<close> statement.
\<close>

theorem Net_is_never_defined:
  "length notebook = 27
   \<and> notebook ! 11 = net_source_cell
   \<and> cell_type net_source_cell = Markdown
   \<and> run_at (as_written holds) notebook 11 = run_before (as_written holds) notebook 11
   \<and> ''Net'' \<notin> set (names (run_before (as_written holds) notebook 27))
   \<and> ''net'' \<notin> set (names (run_before (as_written holds) notebook 27))
   \<and> ''nn'' \<notin> set (names (run_before (as_written holds) notebook 27))
   \<and> ''F'' \<notin> set (names (run_before (as_written holds) notebook 27))
   \<and> raised (run_cell (as_written holds) (run_before (as_written holds) notebook 11)
               (net_source_cell\<lparr>cell_type := Code\<rparr>))
       = Some (NameError ''nn'')"
  unfolding run_at_def before_11 before_27
  by (simp del: run_stmt.simps run_block.simps run_loop.simps add: eval_cell notebook_def
      cong: unless_raised_weak_cong)

text \<open>
  Claim C1 says that the training loop runs five epochs, each over every batch, with
  zero-grad, forward pass, loss, backward pass and optimizer step per batch and a print
  per epoch. In the notebook the cell (cell 15) is reached with \<^verbatim>\<open>optimizer\<close>,
  \<^verbatim>\<open>criterion\<close> and \<^verbatim>\<open>net\<close> unbound. It takes five steps (the header of the outer
  loop, the first epoch number, \<^verbatim>\<open>running_loss = 0.0\<close>, the header of the inner loop,
  the first batch) and then raises \<^verbatim>\<open>NameError: name 'optimizer' is not defined\<close> at
  \<^verbatim>\<open>optimizer.zero_grad()\<close>: no forward pass is made and nothing is printed.
\<close>

theorem training_cell_raises_NameError:
  "notebook ! 15 = training_source_cell
   \<and> raised (run_at (as_written holds) notebook 15) = Some (NameError ''optimizer'')
   \<and> ''optimizer'' \<notin> set (names (run_before (as_written holds) notebook 15))
   \<and> ''criterion'' \<notin> set (names (run_before (as_written holds) notebook 15))
   \<and> ''net'' \<notin> set (names (run_before (as_written holds) notebook 15))
   \<and> clock (run_at (as_written holds) notebook 15)
       = clock (run_before (as_written holds) notebook 15) + 5
   \<and> ''outputs'' \<notin> set (names (run_at (as_written holds) notebook 15))"
  unfolding run_at_def before_15
  by (simp del: run_stmt.simps run_block.simps run_loop.simps add: eval_cell notebook_def
      cong: unless_raised_weak_cong)


text \<open>
  Claim C2 says that saving the trained network's state dict to \<^verbatim>\<open>model.pth\<close> and
  loading the file into a fresh \<^verbatim>\<open>Net\<close> restores the parameters. In the notebook the
  cell (cell 19) is reached with \<^verbatim>\<open>net\<close> and \<^verbatim>\<open>Net\<close> unbound. Its first statement,
  \<^verbatim>\<open>torch.save(net.state_dict(), "model.pth")\<close>, raises
  \<^verbatim>\<open>NameError: name 'net' is not defined\<close> before any step is taken: nothing is saved,
  no \<^verbatim>\<open>Net\<close> is built and nothing is loaded.
\<close>

theorem save_load_cell_raises_NameError:
  "notebook ! 19 = save_load_source_cell
   \<and> raised (run_at (as_written holds) notebook 19) = Some (NameError ''net'')
   \<and> ''net'' \<notin> set (names (run_before (as_written holds) notebook 19))
   \<and> ''Net'' \<notin> set (names (run_before (as_written holds) notebook 19))
   \<and> clock (run_at (as_written holds) notebook 19)
       = clock (run_before (as_written holds) notebook 19)
   \<and> ''loaded_net'' \<notin> set (names (run_at (as_written holds) notebook 19))"
  unfolding run_at_def before_19
  by (simp del: run_stmt.simps run_block.simps run_loop.simps add: eval_cell notebook_def
      cong: unless_raised_weak_cong)

text \<open>
  Claim C8 says that the transfer-learning cell replaces the \<^verbatim>\<open>fc\<close> layer of the
  pretrained ResNet18 by a linear layer with 10 outputs and leaves the rest unchanged.
  In the notebook the cell (cell 21) is reached with \<^verbatim>\<open>nn\<close> unbound. It imports
  \<^verbatim>\<open>torchvision\<close>, loads the model and reads \<^verbatim>\<open>num_ftrs\<close> (three steps), and then
  \<^verbatim>\<open>model.fc = nn.Linear(num_ftrs, 10)\<close> raises
  \<^verbatim>\<open>NameError: name 'nn' is not defined\<close> before the layer is built: \<^verbatim>\<open>fc\<close> is not
  replaced.
\<close>

theorem transfer_cell_raises_NameError:
  "notebook ! 21 = transfer_source_cell
   \<and> raised (run_at (as_written holds) notebook 21) = Some (NameError ''nn'')
   \<and> ''nn'' \<notin> set (names (run_before (as_written holds) notebook 21))
   \<and> clock (run_at (as_written holds) notebook 21)
       = clock (run_before (as_written holds) notebook 21) + 3
   \<and> ''model'' \<in> set (names (run_at (as_written holds) notebook 21))
   \<and> ''num_ftrs'' \<in> set (names (run_at (as_written holds) notebook 21))"
  unfolding run_at_def before_21
  by (simp del: run_stmt.simps run_block.simps run_loop.simps add: eval_cell notebook_def
      cong: unless_raised_weak_cong)

text \<open>
  Claim C9 says that the network is wrapped in \<^verbatim>\<open>DataParallel\<close> exactly when the
  device count is above 1 and left unchanged otherwise. In the notebook the cell (cell
  25) is reached with \<^verbatim>\<open>nn\<close> and \<^verbatim>\<open>net\<close> unbound. With a device count of 0 or 1 it
  does nothing after the test. With a count above 1 it prints and then
  \<^verbatim>\<open>net = nn.DataParallel(net)\<close> raises \<^verbatim>\<open>NameError: name 'nn' is not defined\<close>:
  in neither case is \<^verbatim>\<open>net\<close> bound, so nothing is ever wrapped.
\<close>

theorem data_parallel_cell_raises_NameError:
  "notebook ! 25 = data_parallel_source_cell
   \<and> raised (run_at (as_written holds) notebook 25)
       = (if holds DeviceCountAbove1 then Some (NameError ''nn'') else None)
   \<and> clock (run_at (as_written holds) notebook 25)
       = clock (run_before (as_written holds) notebook 25)
         + (if holds DeviceCountAbove1 then 2 else 1)
   \<and> names (run_at (as_written holds) notebook 25)
       = names (run_before (as_written holds) notebook 25)
   \<and> ''net'' \<notin> set (names (run_at (as_written holds) notebook 25))
   \<and> ''nn'' \<notin> set (names (run_before (as_written holds) notebook 25))"
  unfolding run_at_def before_25
  by (simp del: run_stmt.simps run_block.simps run_loop.simps add: eval_cell notebook_def
      cong: unless_raised_weak_cong)

section \<open>How failures reach the caller\<close>

text \<open>
  Claim C4 says that a missing CUDA device, like a shape mismatch or a missing
  checkpoint file, surfaces as an error of the framework, and that no cell branches on
  such a failure. The CUDA cell does branch: on a machine without CUDA, where moving
  the tensor would raise, it does not attempt the move and ends normally.
\<close>

theorem cuda_cell_handles_missing_device:
  "cuda_cell False no_cuda_device [1, 2, 3 :: int] = Inr ([1, 2, 3], [ShowText ''CUDA not available''])
   \<and> \<not> isl (cuda_cell False no_cuda_device [1, 2, 3 :: int])"
  by (simp add: cuda_cell_def)

text \<open>
  The rest of the claim stands, for these and all other exceptions. The lemmas below
  show that the structured run of a block is the run of its steps in sequence, cut at
  the first step that leaves an exception pending.
\<close>

lemma lookup_all_Inl:
  "lookup_all env reads = Inl e \<Longrightarrow> \<exists>n. e = NameError n \<and> n \<notin> set env"
  by (auto simp: lookup_all_def find_Some_iff split: option.splits)

lemma lookup_all_Inr_iff: "(\<exists>u. lookup_all env reads = Inr u) = (set reads \<subseteq> set env)"
proof -
  have "(find (\<lambda>n. n \<notin> set env) reads = None) = (set reads \<subseteq> set env)"
    by (auto simp: find_None_iff)
  then show ?thesis
    by (cases "find (\<lambda>n. n \<notin> set env) reads") (auto simp: lookup_all_def)
qed

lemma run_plan_append:
  "raised r = None \<Longrightarrow>
   run_plan w r (ps @ qs) =
     (if raised (run_plan w r ps) \<noteq> None then run_plan w r ps
      else run_plan w (run_plan w r ps) qs)"
  by (induction ps arbitrary: r) (auto simp: Let_def)

lemma run_is_run_plan:
  "raised r = None \<longrightarrow> run_stmt w r s = run_plan w r (plan_stmt w s)"
  "raised r = None \<longrightarrow> run_block w r ss = run_plan w r (plan_block w ss)"
  "raised r = None \<longrightarrow>
     run_loop w r targets body n
       = run_plan w r (concat (replicate n (([], targets) # plan_block w body)))"
proof (induction w r s and w r ss and w r targets body n rule: run_stmt_run_block_run_loop.induct)
  case (11 w r s ss)
  show ?case
  proof
    assume r: "raised r = None"
    have 1: "run_stmt w r s = run_plan w r (plan_stmt w s)"
      using 11 r by simp
    show "run_block w r (s # ss) = run_plan w r (plan_block w (s # ss))"
    proof (cases "raised (run_stmt w r s)")
      case None
      then have "run_block w (run_stmt w r s) ss = run_plan w (run_stmt w r s) (plan_block w ss)"
        using 11 by simp
      then show ?thesis
        using None 1 r by (simp add: run_plan_append Let_def)
    next
      case (Some e)
      then show ?thesis
        using 1 r by (simp add: run_plan_append Let_def)
    qed
  qed
next
  case (13 w r targets body n)
  show ?case
  proof
    assume r: "raised r = None"
    let ?r1 = "step w [] targets r"
    let ?r2 = "run_block w ?r1 body"
    let ?rest = "concat (replicate n (([], targets) # plan_block w body))"
    show "run_loop w r targets body (Suc n)
            = run_plan w r (concat (replicate (Suc n) (([], targets) # plan_block w body)))"
    proof (cases "raised ?r1")
      case (Some e)
      then show ?thesis by (simp add: Let_def)
    next
      case None
      then have 2: "?r2 = run_plan w ?r1 (plan_block w body)"
        using 13 by simp
      show ?thesis
      proof (cases "raised ?r2")
        case (Some e)
        then show ?thesis
          using None 2 by (simp add: Let_def run_plan_append)
      next
        case None2: None
        then have "run_loop w ?r2 targets body n = run_plan w ?r2 ?rest"
          using 13 None by simp
        then show ?thesis
          using None None2 2 by (simp add: Let_def run_plan_append)
      qed
    qed
  qed
qed (simp_all add: Let_def)

lemma all_succeed_same: "all_succeed w a a"
  by (auto simp: all_succeed_def)

lemma all_succeed_trans:
  "all_succeed w a b \<Longrightarrow> all_succeed w b c \<Longrightarrow> all_succeed w a c"
  unfolding all_succeed_def by (metis not_le)

lemma all_succeed_first:
  "all_succeed w a (a + Suc n) = (fails w a = None \<and> all_succeed w (Suc a) (Suc a + n))"
proof
  assume a: "all_succeed w a (a + Suc n)"
  then have "fails w a = None"
    unfolding all_succeed_def by simp
  moreover have "all_succeed w (Suc a) (Suc a + n)"
    using a unfolding all_succeed_def by simp
  ultimately show "fails w a = None \<and> all_succeed w (Suc a) (Suc a + n)" by simp
next
  assume b: "fails w a = None \<and> all_succeed w (Suc a) (Suc a + n)"
  show "all_succeed w a (a + Suc n)"
    unfolding all_succeed_def
  proof (intro allI impI)
    fix j assume j: "a \<le> j \<and> j < a + Suc n"
    show "fails w j = None"
    proof (cases "j = a")
      case True
      then show ?thesis using b by simp
    next
      case False
      then have "Suc a \<le> j \<and> j < Suc a + n" using j by simp
      then show ?thesis using b unfolding all_succeed_def by blast
    qed
  qed
qed

lemma step_completes_iff:
  assumes "raised r = None"
  shows "(raised (step w reads binds r) = None)
           = (set reads \<subseteq> set (names r) \<and> fails w (clock r) = None)"
  using assms lookup_all_Inr_iff [of "names r" reads]
  by (auto simp: step_def split: sum.splits option.splits)

lemma step_completed:
  "raised (step w reads binds r) = None \<Longrightarrow>
   names (step w reads binds r) = binds @ names r \<and> clock (step w reads binds r) = Suc (clock r)"
  by (auto simp: step_def split: sum.splits option.splits)

lemma run_plan_completes_iff:
  "raised r = None \<Longrightarrow>
   (raised (run_plan w r ps) = None)
     = (reads_bound (names r) ps \<and> all_succeed w (clock r) (clock r + length ps))"
proof (induction ps arbitrary: r)
  case Nil
  then show ?case by (simp add: all_succeed_same)
next
  case (Cons p ps)
  let ?r1 = "step w (fst p) (snd p) r"
  show ?case
  proof (cases "raised ?r1")
    case None
    then have b: "set (fst p) \<subseteq> set (names r)" "fails w (clock r) = None"
      using step_completes_iff [OF Cons.prems] by auto
    have n: "names ?r1 = snd p @ names r" "clock ?r1 = Suc (clock r)"
      using step_completed [OF None] by auto
    show ?thesis
      using None b n Cons.IH [OF None] all_succeed_first [of w "clock r" "length ps"]
      by (simp add: Let_def)
  next
    case (Some e)
    then have "\<not> (set (fst p) \<subseteq> set (names r) \<and> fails w (clock r) = None)"
      using step_completes_iff [OF Cons.prems, of w "fst p" "snd p"] by simp
    then show ?thesis
      using Some all_succeed_first [of w "clock r" "length ps"]
      by (auto simp: Let_def)
  qed
qed

lemma first_failure_refl: "raised r = None \<Longrightarrow> first_failure w r r"
  by (simp add: first_failure_def all_succeed_same)

lemma first_failure_trans:
  assumes "first_failure w r r1" "raised r1 = None" "first_failure w r1 r2"
  shows "first_failure w r r2"
proof -
  have 1: "clock r \<le> clock r1" "all_succeed w (clock r) (clock r1)"
    using assms(1,2) by (simp_all add: first_failure_def)
  have 2: "clock r1 \<le> clock r2"
    using assms(3) by (simp add: first_failure_def)
  show ?thesis
  proof (cases "raised r2")
    case None
    then have "all_succeed w (clock r1) (clock r2)"
      using assms(3) by (simp add: first_failure_def)
    then show ?thesis
      using 1 2 None all_succeed_trans by (auto simp: first_failure_def)
  next
    case (Some e)
    then consider
        (name) "all_succeed w (clock r1) (clock r2)" "\<exists>n. e = NameError n \<and> n \<notin> set (names r2)"
      | (call) "clock r1 < clock r2" "all_succeed w (clock r1) (clock r2 - 1)"
          "fails w (clock r2 - 1) = Some e"
      using assms(3) by (auto simp: first_failure_def)
    then show ?thesis
    proof cases
      case name
      then show ?thesis
        using 1 2 Some all_succeed_trans by (auto simp: first_failure_def)
    next
      case call
      then have "all_succeed w (clock r) (clock r2 - 1)" "clock r < clock r2"
        using 1 all_succeed_trans by auto
      then show ?thesis
        using call Some by (auto simp: first_failure_def)
    qed
  qed
qed

lemma step_first_failure:
  assumes "raised r = None"
  shows "first_failure w r (step w reads binds r)"
proof (cases "lookup_all (names r) reads")
  case (Inl e)
  then obtain n where "e = NameError n" "n \<notin> set (names r)"
    using lookup_all_Inl by blast
  then show ?thesis
    using Inl by (simp add: step_def first_failure_def all_succeed_same)
next
  case (Inr u)
  show ?thesis
  proof (cases "fails w (clock r)")
    case None
    then show ?thesis
      using Inr assms by (auto simp: step_def first_failure_def all_succeed_def less_Suc_eq_le)
  next
    case (Some e)
    then show ?thesis
      using Inr by (simp add: step_def first_failure_def all_succeed_same)
  qed
qed

lemma run_plan_first_failure:
  "raised r = None \<Longrightarrow> first_failure w r (run_plan w r ps)"
proof (induction ps arbitrary: r)
  case Nil
  then show ?case by (simp add: first_failure_refl)
next
  case (Cons p ps)
  let ?r1 = "step w (fst p) (snd p) r"
  have s: "first_failure w r ?r1"
    using Cons.prems by (rule step_first_failure)
  show ?case
  proof (cases "raised ?r1")
    case None
    then show ?thesis
      using first_failure_trans [OF s None Cons.IH [OF None]] by (simp add: Let_def)
  next
    case (Some e)
    then show ?thesis using s by (simp add: Let_def)
  qed
qed

lemma notebook_conds:
  "concat (map (\<lambda>c. conds_block (source c)) notebook) = [CudaIsAvailable, DeviceCountAbove1]"
  by (simp add: notebook_def cell_defs)

text \<open>
  Claim C4, amended. Whatever a cell raises reaches its caller: a code cell does what
  the sequence of its steps does, cut at the first step that raises; it ends without an
  exception exactly when every name it reads is bound when read and the framework
  raises in none of its steps; and the exception it ends with is the one that came
  first, a \<^verbatim>\<open>NameError\<close> or what the framework raised (a shape mismatch, a missing
  checkpoint file or anything else). No cell catches or otherwise handles an
  exception, and the only conditions any cell branches on are the two CUDA tests.
  A missing CUDA device is the exception to the claim: the CUDA cell tests
  \<^verbatim>\<open>torch.cuda.is_available()\<close> and, when it is false, takes two steps only (the test
  and the print of \<^verbatim>\<open>CUDA not available\<close>), leaves \<^verbatim>\<open>tensor\<close> as it was and raises
  nothing.
\<close>

theorem exceptions_reach_the_caller:
  "run_cell w r c =
     (case cell_type c of
        Markdown \<Rightarrow> r\<lparr>raised := None\<rparr>
      | Code \<Rightarrow> run_plan w (r\<lparr>raised := None\<rparr>) (plan_block w (source c)))
   \<and> (cell_type c = Code \<longrightarrow>
        (raised (run_cell w r c) = None)
          = (reads_bound (names r) (plan_block w (source c))
             \<and> all_succeed w (clock r) (clock r + length (plan_block w (source c)))))
   \<and> first_failure w (r\<lparr>raised := None\<rparr>) (run_cell w r c)
   \<and> concat (map (\<lambda>c. conds_block (source c)) notebook) = [CudaIsAvailable, DeviceCountAbove1]
   \<and> plan_block w (source cuda_source_cell)
       = (if holds_in w CudaIsAvailable
          then [([''torch''], []), ([''torch''], [''device'']),
                ([''tensor'', ''device''], [''tensor'']), ([''print'', ''tensor''], [])]
          else [([''torch''], []), ([''print''], [])])
   \<and> cuda_cell False to_cuda tensor = Inr (tensor, [ShowText ''CUDA not available''])"
proof -
  let ?r0 = "r\<lparr>raised := None\<rparr>"
  let ?ps = "plan_block w (source c)"
  have r0: "raised ?r0 = None" by simp
  have code: "cell_type c = Code \<Longrightarrow> run_cell w r c = run_plan w ?r0 ?ps"
    using run_is_run_plan(2) [of ?r0 w "source c"] by (simp add: run_cell_def)
  have 1: "run_cell w r c =
     (case cell_type c of
        Markdown \<Rightarrow> ?r0
      | Code \<Rightarrow> run_plan w ?r0 ?ps)"
    using code by (cases "cell_type c") (simp_all add: run_cell_def)
  have 2: "cell_type c = Code \<longrightarrow>
        (raised (run_cell w r c) = None)
          = (reads_bound (names r) ?ps \<and> all_succeed w (clock r) (clock r + length ?ps))"
    using code run_plan_completes_iff [OF r0, of w ?ps] by simp
  have 3: "first_failure w ?r0 (run_cell w r c)"
  proof (cases "cell_type c")
    case Markdown
    then show ?thesis by (simp add: run_cell_def first_failure_refl)
  next
    case Code
    then show ?thesis
      using code run_plan_first_failure [OF r0, of w ?ps] by simp
  qed
  have 5: "plan_block w (source cuda_source_cell)
       = (if holds_in w CudaIsAvailable
          then [([''torch''], []), ([''torch''], [''device'']),
                ([''tensor'', ''device''], [''tensor'']), ([''print'', ''tensor''], [])]
          else [([''torch''], []), ([''print''], [])])"
    by (simp add: cuda_source_cell_def)
  have 6: "cuda_cell False to_cuda tensor = Inr (tensor, [ShowText ''CUDA not available''])"
    by (simp add: cuda_cell_def)
  from 1 2 3 notebook_conds 5 6 show ?thesis by blast
qed

theorem exceptions_reach_the_caller_witness:
  "cell_type training_source_cell = Code
   \<and> raised (run_cell shape_mismatch_later names_repaired training_source_cell)
       = Some (RuntimeError ''mat1 and mat2 shapes cannot be multiplied'')
   \<and> clock (run_cell shape_mismatch_later names_repaired training_source_cell) = 53
   \<and> \<not> all_succeed shape_mismatch_later 0 53
   \<and> first_failure shape_mismatch_later names_repaired
       (run_cell shape_mismatch_later names_repaired training_source_cell)
   \<and> cell_type save_load_source_cell = Code
   \<and> raised (run_cell checkpoint_missing names_repaired save_load_source_cell)
       = Some (FileNotFoundError ''model.pth'')
   \<and> clock (run_cell checkpoint_missing names_repaired save_load_source_cell) = 3
   \<and> first_failure checkpoint_missing names_repaired
       (run_cell checkpoint_missing names_repaired save_load_source_cell)
   \<and> raised (run_cell (as_written (\<lambda>c. False)) names_repaired save_load_source_cell) = None
   \<and> reads_bound (names names_repaired)
       (plan_block (as_written (\<lambda>c. False)) (source save_load_source_cell))
   \<and> all_succeed (as_written (\<lambda>c. False)) 0 3
   \<and> cuda_cell False no_cuda_device (5 :: int) = Inr (5, [ShowText ''CUDA not available''])"
proof -
  have t: "cell_type training_source_cell = Code" "cell_type save_load_source_cell = Code"
    by (simp_all add: training_source_cell_def save_load_source_cell_def)
  have r0: "names_repaired\<lparr>raised := None\<rparr> = names_repaired"
    "clock names_repaired = 0"
    by (simp_all add: names_repaired_def)
  have e1: "raised (run_cell shape_mismatch_later names_repaired training_source_cell)
      = Some (RuntimeError ''mat1 and mat2 shapes cannot be multiplied'')"
    "clock (run_cell shape_mismatch_later names_repaired training_source_cell) = 53"
    by (simp_all del: run_stmt.simps run_block.simps run_loop.simps
        add: eval_rules cell_defs names_repaired_def shape_mismatch_later_def
        cong: unless_raised_weak_cong)
  have e2: "raised (run_cell checkpoint_missing names_repaired save_load_source_cell)
      = Some (FileNotFoundError ''model.pth'')"
    "clock (run_cell checkpoint_missing names_repaired save_load_source_cell) = 3"
    by (simp_all del: run_stmt.simps run_block.simps run_loop.simps
        add: eval_rules cell_defs names_repaired_def checkpoint_missing_def
        cong: unless_raised_weak_cong)
  have e3: "raised (run_cell (as_written (\<lambda>c. False)) names_repaired save_load_source_cell) = None"
    by (simp del: run_stmt.simps run_block.simps run_loop.simps
        add: eval_rules cell_defs names_repaired_def
        cong: unless_raised_weak_cong)
  have l: "length (plan_block (as_written (\<lambda>c. False)) (source save_load_source_cell)) = 3"
    by (simp add: save_load_source_cell_def)
  have n1: "\<not> all_succeed shape_mismatch_later 0 53"
    by (auto simp: all_succeed_def shape_mismatch_later_def as_written_def intro: exI [of _ 52])
  note A = exceptions_reach_the_caller [of shape_mismatch_later names_repaired
      training_source_cell no_cuda_device "5 :: int"]
  note B = exceptions_reach_the_caller [of checkpoint_missing names_repaired
      save_load_source_cell no_cuda_device "5 :: int"]
  note C = exceptions_reach_the_caller [of "as_written (\<lambda>c. False)" names_repaired
      save_load_source_cell no_cuda_device "5 :: int"]
  have f1: "first_failure shape_mismatch_later names_repaired
       (run_cell shape_mismatch_later names_repaired training_source_cell)"
    using A unfolding r0 by blast
  have f2: "first_failure checkpoint_missing names_repaired
       (run_cell checkpoint_missing names_repaired save_load_source_cell)"
    using B unfolding r0 by blast
  have "(raised (run_cell (as_written (\<lambda>c. False)) names_repaired save_load_source_cell) = None)
      = (reads_bound (names names_repaired)
           (plan_block (as_written (\<lambda>c. False)) (source save_load_source_cell))
         \<and> all_succeed (as_written (\<lambda>c. False)) (clock names_repaired)
             (clock names_repaired
              + length (plan_block (as_written (\<lambda>c. False)) (source save_load_source_cell))))"
    using C t(2) by blast
  then have rb: "reads_bound (names names_repaired)
           (plan_block (as_written (\<lambda>c. False)) (source save_load_source_cell))"
    "all_succeed (as_written (\<lambda>c. False)) 0 3"
    using e3 unfolding r0 l by simp_all
  have cu: "cuda_cell False no_cuda_device (5 :: int) = Inr (5, [ShowText ''CUDA not available''])"
    using A by blast
  show ?thesis
    using t e1 n1 f1 e2 f2 e3 rb cu by (intro conjI)
qed

end
